theory Spec2Isabelle
  imports Main
begin

section \<open>The native threading interface\<close>

text \<open>
  \<^verbatim>\<open>common/threads/Pthread.h\<close> wraps the POSIX threading calls. The calls themselves are
  not part of the header, so the embedding takes them as a parameter: an arbitrary function
  \<open>sys\<close> that, for a call and the current state of everything outside the header, either
  returns a result and a new outside state, or never returns (\<open>None\<close>: the call blocks for
  ever). Every theorem below holds for every such \<open>sys\<close>.

  Native objects are passed by address; an address is a natural number. A \<open>pthread_t\<close> is
  passed to \<open>pthread_join\<close> by value, so for threads the number is the handle itself.
\<close>

type_synonym pthread_mutex_t = nat
type_synonym pthread_cond_t = nat
type_synonym pthread_t = nat
type_synonym start_routine = nat
type_synonym void_ptr = nat

datatype clockid_t = CLOCK_REALTIME | CLOCK_MONOTONIC

text \<open>The only attribute object the header ever names is the local variable \<open>attr\<close> of the
  \<open>ConditionVariable\<close> constructor; every other attribute argument is \<open>NULL\<close>.\<close>

datatype attr_ptr = Local_attr

abbreviation (input) NULL :: "'a option" where
  "NULL \<equiv> None"

record timespec =
  tv_sec :: int
  tv_nsec :: int

datatype native_call =
    pthread_mutex_init pthread_mutex_t "attr_ptr option"
  | pthread_mutex_destroy pthread_mutex_t
  | pthread_mutex_lock pthread_mutex_t
  | pthread_mutex_unlock pthread_mutex_t
  | pthread_condattr_init attr_ptr
  | pthread_condattr_setclock attr_ptr clockid_t
  | pthread_condattr_destroy attr_ptr
  | pthread_cond_init pthread_cond_t "attr_ptr option"
  | pthread_cond_destroy pthread_cond_t
  | pthread_cond_signal pthread_cond_t
  | pthread_cond_broadcast pthread_cond_t
  | pthread_cond_wait pthread_cond_t pthread_mutex_t
  | pthread_cond_timedwait pthread_cond_t pthread_mutex_t timespec
  | pthread_cond_timedwait_monotonic_np pthread_cond_t pthread_mutex_t timespec
  | pthread_create "attr_ptr option" start_routine void_ptr
  | pthread_join pthread_t

text \<open>What a native call hands back: its integer status; for \<open>pthread_create\<close>, the handle
  it stored through its first argument; for \<open>pthread_join\<close>, the thread's return value it
  stored through its second argument (\<open>None\<close> when nothing was stored).\<close>

record native_result =
  status :: int
  thread_out :: "pthread_t option"
  value_out :: "void_ptr option"

type_synonym 'w native = "native_call \<Rightarrow> 'w \<Rightarrow> (native_result \<times> 'w) option"

text \<open>The world seen by the header: the outside state and the native calls made so far,
  oldest first.\<close>

record 'w world =
  os :: 'w
  trace :: "native_call list"

subsection \<open>Programs that may block\<close>

text \<open>A program runs from a state and either returns a value (\<open>Some\<close>) or never returns
  (\<open>None\<close>); in both cases the state reached is kept, so that the calls made before blocking
  stay visible.\<close>

type_synonym ('a, 's) prog = "'s \<Rightarrow> 'a option \<times> 's"

definition return_prog :: "'a \<Rightarrow> ('a, 's) prog" where
  "return_prog a s = (Some a, s)"

definition bind_prog :: "('a, 's) prog \<Rightarrow> ('a \<Rightarrow> ('b, 's) prog) \<Rightarrow> ('b, 's) prog" where
  "bind_prog p f s = (case p s of (None, s') \<Rightarrow> (None, s') | (Some a, s') \<Rightarrow> f a s')"

definition call :: "'w native \<Rightarrow> native_call \<Rightarrow> (native_result, 'w world) prog" where
  "call sys c w =
     (case sys c (os w) of
        None \<Rightarrow> (None, w\<lparr>trace := trace w @ [c]\<rparr>)
      | Some (r, s) \<Rightarrow> (Some r, \<lparr>os = s, trace = trace w @ [c]\<rparr>))"

text \<open>The native calls a program makes when run from \<open>w\<close>.\<close>

definition emitted :: "('a, 'w world) prog \<Rightarrow> 'w world \<Rightarrow> native_call list" where
  "emitted p w = drop (length (trace w)) (trace (snd (p w)))"

section \<open>Mutex\<close>

text \<open>
  \<^verbatim>\<open>
  class Mutex {
    Mutex()  { pthread_mutex_init(&mutex_, NULL); }
    ~Mutex() { pthread_mutex_destroy(&mutex_); }
    void Lock()   { pthread_mutex_lock(&mutex_); }
    void Unlock() { pthread_mutex_unlock(&mutex_); }
    pthread_mutex_t* GetMutex() { return &mutex_; }
    pthread_mutex_t mutex_;
  };
  \<close>
  An identifier cannot end in an underscore here, so each member carries its class instead:
  \<^verbatim>\<open>Mutex::mutex_\<close> is \<open>Mutex_mutex\<close>. The object is represented by the address of that
  member; the constructor takes the address (where the object is being built).
\<close>

record Mutex =
  Mutex_mutex :: pthread_mutex_t

definition Mutex_ctor :: "'w native \<Rightarrow> pthread_mutex_t \<Rightarrow> (Mutex, 'w world) prog" where
  "Mutex_ctor sys this =
     bind_prog (call sys (pthread_mutex_init this NULL)) (\<lambda>_.
     return_prog \<lparr>Mutex_mutex = this\<rparr>)"

definition Mutex_dtor :: "'w native \<Rightarrow> Mutex \<Rightarrow> (unit, 'w world) prog" where
  "Mutex_dtor sys m =
     bind_prog (call sys (pthread_mutex_destroy (Mutex_mutex m))) (\<lambda>_.
     return_prog ())"

definition Mutex_Lock :: "'w native \<Rightarrow> Mutex \<Rightarrow> (unit, 'w world) prog" where
  "Mutex_Lock sys m =
     bind_prog (call sys (pthread_mutex_lock (Mutex_mutex m))) (\<lambda>_.
     return_prog ())"

definition Mutex_Unlock :: "'w native \<Rightarrow> Mutex \<Rightarrow> (unit, 'w world) prog" where
  "Mutex_Unlock sys m =
     bind_prog (call sys (pthread_mutex_unlock (Mutex_mutex m))) (\<lambda>_.
     return_prog ())"

definition GetMutex :: "Mutex \<Rightarrow> pthread_mutex_t" where
  "GetMutex m = Mutex_mutex m"

section \<open>ConditionVariable\<close>

text \<open>
  The macro \<^verbatim>\<open>GCE_PLATFORM_SDK_BEFORE(L)\<close> comes from \<^verbatim>\<open>api_level_fixes.h\<close>, which is not
  part of the header; its value is the parameter \<open>GCE_PLATFORM_SDK_BEFORE_L\<close>. So is the
  conversion \<^verbatim>\<open>MonotonicTimePoint::ToTimespec\<close> of \<^verbatim>\<open>MonotonicTime.h\<close>, the parameter
  \<open>ToTimespec\<close> over an arbitrary type \<open>'tp\<close> of time points.
  \<^verbatim>\<open>
  explicit ConditionVariable(Mutex* mutex) : mutex_(mutex) {
  #if GCE_PLATFORM_SDK_BEFORE(L)
    pthread_cond_init(&cond_, NULL);
  #else
    pthread_condattr_t attr;
    pthread_condattr_init(&attr);
    pthread_condattr_setclock(&attr, CLOCK_MONOTONIC);
    pthread_cond_init(&cond_, &attr);
    pthread_condattr_destroy(&attr);
  #endif
  }
  \<close>
  The members \<^verbatim>\<open>mutex_\<close> and \<^verbatim>\<open>cond_\<close> are \<open>CV_mutex\<close> and \<open>CV_cond\<close>. The pointed-to
  \<open>Mutex\<close> is never written by this class, so the pointer is represented by the object.
\<close>

record ConditionVariable =
  CV_mutex :: Mutex
  CV_cond :: pthread_cond_t

definition ConditionVariable_ctor ::
  "bool \<Rightarrow> 'w native \<Rightarrow> pthread_cond_t \<Rightarrow> Mutex \<Rightarrow> (ConditionVariable, 'w world) prog" where
  "ConditionVariable_ctor GCE_PLATFORM_SDK_BEFORE_L sys this mutex =
     (if GCE_PLATFORM_SDK_BEFORE_L then
        bind_prog (call sys (pthread_cond_init this NULL)) (\<lambda>_.
        return_prog \<lparr>CV_mutex = mutex, CV_cond = this\<rparr>)
      else
        bind_prog (call sys (pthread_condattr_init Local_attr)) (\<lambda>_.
        bind_prog (call sys (pthread_condattr_setclock Local_attr CLOCK_MONOTONIC)) (\<lambda>_.
        bind_prog (call sys (pthread_cond_init this (Some Local_attr))) (\<lambda>_.
        bind_prog (call sys (pthread_condattr_destroy Local_attr)) (\<lambda>_.
        return_prog \<lparr>CV_mutex = mutex, CV_cond = this\<rparr>)))))"

definition ConditionVariable_dtor :: "'w native \<Rightarrow> ConditionVariable \<Rightarrow> (unit, 'w world) prog" where
  "ConditionVariable_dtor sys cv =
     bind_prog (call sys (pthread_cond_destroy (CV_cond cv))) (\<lambda>_.
     return_prog ())"

definition NotifyOne :: "'w native \<Rightarrow> ConditionVariable \<Rightarrow> (int, 'w world) prog" where
  "NotifyOne sys cv =
     bind_prog (call sys (pthread_cond_signal (CV_cond cv))) (\<lambda>r.
     return_prog (status r))"

definition NotifyAll :: "'w native \<Rightarrow> ConditionVariable \<Rightarrow> (int, 'w world) prog" where
  "NotifyAll sys cv =
     bind_prog (call sys (pthread_cond_broadcast (CV_cond cv))) (\<lambda>r.
     return_prog (status r))"

definition Wait :: "'w native \<Rightarrow> ConditionVariable \<Rightarrow> (int, 'w world) prog" where
  "Wait sys cv =
     bind_prog (call sys (pthread_cond_wait (CV_cond cv) (GetMutex (CV_mutex cv)))) (\<lambda>r.
     return_prog (status r))"

text \<open>
  \<^verbatim>\<open>
  int WaitUntil(const avd::time::MonotonicTimePoint& tp) {
    struct timespec ts;
    tp.ToTimespec(&ts);
  #if GCE_PLATFORM_SDK_BEFORE(L)
    return pthread_cond_timedwait_monotonic_np(&cond_, mutex_->GetMutex(), &ts);
  #else
    return pthread_cond_timedwait(&cond_, mutex_->GetMutex(), &ts);
  #endif
  }
  \<close>
\<close>

definition WaitUntil ::
  "bool \<Rightarrow> ('tp \<Rightarrow> timespec) \<Rightarrow> 'w native \<Rightarrow> ConditionVariable \<Rightarrow> 'tp \<Rightarrow> (int, 'w world) prog" where
  "WaitUntil GCE_PLATFORM_SDK_BEFORE_L ToTimespec sys cv tp =
     (let ts = ToTimespec tp in
      if GCE_PLATFORM_SDK_BEFORE_L then
        bind_prog (call sys (pthread_cond_timedwait_monotonic_np
                               (CV_cond cv) (GetMutex (CV_mutex cv)) ts)) (\<lambda>r.
        return_prog (status r))
      else
        bind_prog (call sys (pthread_cond_timedwait (CV_cond cv) (GetMutex (CV_mutex cv)) ts)) (\<lambda>r.
        return_prog (status r)))"

section \<open>LockGuard\<close>

text \<open>
  \<^verbatim>\<open>
  template <typename M> class LockGuard {
    explicit LockGuard(M& mutex) : mutex_(mutex) { mutex_.Lock(); }
    ~LockGuard() { mutex_.Unlock(); }
    M& mutex_;
  };
  \<close>
  The template parameter is any type with methods \<open>Lock\<close> and \<open>Unlock\<close>; their results, if
  any, are dropped by the expression statements. A type \<open>M\<close> is given by these two methods,
  as programs over an arbitrary state \<open>'s\<close>. The reference member \<^verbatim>\<open>mutex_\<close> is
  \<open>LockGuard_mutex\<close>.
\<close>

record ('m, 's) Lockable =
  Lock :: "'m \<Rightarrow> (unit, 's) prog"
  Unlock :: "'m \<Rightarrow> (unit, 's) prog"

record 'm LockGuard =
  LockGuard_mutex :: 'm

definition LockGuard_ctor :: "('m, 's) Lockable \<Rightarrow> 'm \<Rightarrow> ('m LockGuard, 's) prog" where
  "LockGuard_ctor M mutex =
     bind_prog (Lock M mutex) (\<lambda>_.
     return_prog \<lparr>LockGuard_mutex = mutex\<rparr>)"

definition LockGuard_dtor :: "('m, 's) Lockable \<Rightarrow> 'm LockGuard \<Rightarrow> (unit, 's) prog" where
  "LockGuard_dtor M g =
     bind_prog (Unlock M (LockGuard_mutex g)) (\<lambda>_.
     return_prog ())"

text \<open>The instantiation \<open>LockGuard<Mutex>\<close>.\<close>

definition Mutex_Lockable :: "'w native \<Rightarrow> (Mutex, 'w world) Lockable" where
  "Mutex_Lockable sys = \<lparr>Lock = Mutex_Lock sys, Unlock = Mutex_Unlock sys\<rparr>"

text \<open>
  \<^verbatim>\<open>
  template<> class LockGuard<pthread_mutex_t> {
    explicit LockGuard(pthread_mutex_t& mutex) : mutex_(mutex), unlock_(false) {
      unlock_ = (pthread_mutex_lock(&mutex_) == 0);
    }
    ~LockGuard() {
      if (unlock_) {
        pthread_mutex_unlock(&mutex_);
      }
    }
    pthread_mutex_t& mutex_;
    bool unlock_;
  };
  \<close>
  The members \<^verbatim>\<open>mutex_\<close> and \<^verbatim>\<open>unlock_\<close> are \<open>Raw_mutex\<close> and \<open>Raw_unlock\<close>.
\<close>

record LockGuard_pthread_mutex_t =
  Raw_mutex :: pthread_mutex_t
  Raw_unlock :: bool

definition LockGuard_pthread_mutex_t_ctor ::
  "'w native \<Rightarrow> pthread_mutex_t \<Rightarrow> (LockGuard_pthread_mutex_t, 'w world) prog" where
  "LockGuard_pthread_mutex_t_ctor sys mutex =
     (let this = \<lparr>Raw_mutex = mutex, Raw_unlock = False\<rparr> in
      bind_prog (call sys (pthread_mutex_lock (Raw_mutex this))) (\<lambda>r.
      return_prog (this\<lparr>Raw_unlock := (status r = 0)\<rparr>)))"

definition LockGuard_pthread_mutex_t_dtor ::
  "'w native \<Rightarrow> LockGuard_pthread_mutex_t \<Rightarrow> (unit, 'w world) prog" where
  "LockGuard_pthread_mutex_t_dtor sys this =
     (if Raw_unlock this then
        bind_prog (call sys (pthread_mutex_unlock (Raw_mutex this))) (\<lambda>_.
        return_prog ())
      else return_prog ())"

section \<open>ScopedThread\<close>

text \<open>
  \<^verbatim>\<open>
  class ScopedThread {
    ScopedThread(void* (*start)(void*), void* arg) {
      pthread_create(&thread_, NULL, start, arg);
    }
    ~ScopedThread() {
      void* value;
      pthread_join(thread_, &value);
    }
    pthread_t thread_;
  };
  \<close>
  The member \<^verbatim>\<open>thread_\<close> is \<open>ScopedThread_thread\<close>. It has no initialiser: before
  \<open>pthread_create\<close> it holds whatever the memory held, the parameter \<open>uninit\<close>. After the call it holds the handle the call stored,
  if it stored one. The destructor's local \<open>value\<close> receives what \<open>pthread_join\<close> stores
  (\<open>value_out\<close>) and is never read.
\<close>

record ScopedThread =
  ScopedThread_thread :: pthread_t

definition ScopedThread_ctor ::
  "'w native \<Rightarrow> pthread_t \<Rightarrow> start_routine \<Rightarrow> void_ptr \<Rightarrow> (ScopedThread, 'w world) prog" where
  "ScopedThread_ctor sys uninit start arg =
     bind_prog (call sys (pthread_create NULL start arg)) (\<lambda>r.
     return_prog \<lparr>ScopedThread_thread = (case thread_out r of None \<Rightarrow> uninit | Some t \<Rightarrow> t)\<rparr>)"

definition ScopedThread_dtor :: "'w native \<Rightarrow> ScopedThread \<Rightarrow> (unit, 'w world) prog" where
  "ScopedThread_dtor sys this =
     bind_prog (call sys (pthread_join (ScopedThread_thread this))) (\<lambda>_.
     return_prog ())"

text \<open>
  The class defines two member functions, the constructor and the destructor; the copy
  constructor and the assignment are declared private by \<^verbatim>\<open>DISALLOW_COPY_AND_ASSIGN\<close> and
  never defined, and \<^verbatim>\<open>thread_\<close> is protected. So the operations on a \<open>ScopedThread\<close> are
  these two. The constructor runs on storage that holds no object yet, the destructor on a
  constructed object; after the destructor there is no object left to operate on. An
  operation that does not apply to a stage has no run (\<open>None\<close>).
\<close>

datatype ScopedThread_member =
    ScopedThread_construct start_routine void_ptr
  | ScopedThread_destroy

datatype ScopedThread_stage =
    Unbuilt pthread_t
  | Running ScopedThread
  | Joined

definition ScopedThread_apply ::
  "'w native \<Rightarrow> ScopedThread_member \<Rightarrow> ScopedThread_stage \<Rightarrow>
     (ScopedThread_stage, 'w world) prog option" where
  "ScopedThread_apply sys m stage =
     (case (m, stage) of
        (ScopedThread_construct start arg, Unbuilt uninit) \<Rightarrow>
          Some (bind_prog (ScopedThread_ctor sys uninit start arg) (\<lambda>this.
                return_prog (Running this)))
      | (ScopedThread_destroy, Running this) \<Rightarrow>
          Some (bind_prog (ScopedThread_dtor sys this) (\<lambda>_.
                return_prog Joined))
      | _ \<Rightarrow> None)"

section \<open>Scopes and observations\<close>

text \<open>
  A guard object lives in a block: \<^verbatim>\<open>{ Guard g(...); body }\<close>. The constructor runs, then
  the body, then the destructor, and the block yields the body's value \<open>x\<close> whatever it is
  (it may stand for an error the body signals). Nothing after a step that never returns is
  run.
\<close>

definition scoped ::
  "('g, 's) prog \<Rightarrow> ('g \<Rightarrow> (unit, 's) prog) \<Rightarrow> ('a, 's) prog \<Rightarrow> ('a, 's) prog" where
  "scoped ctor dtor body =
     bind_prog ctor (\<lambda>g.
     bind_prog body (\<lambda>x.
     bind_prog (dtor g) (\<lambda>_.
     return_prog x)))"

text \<open>
  To count the method calls a generic \<open>LockGuard<M>\<close> makes, any \<open>M\<close> is wrapped so that each
  of its methods also appends an entry to a log kept beside \<open>M\<close>'s own state. Code that is not
  a method of \<open>M\<close> leaves the log alone.
\<close>

datatype 'm method_call = Lock_call 'm | Unlock_call 'm

definition logged :: "'c \<Rightarrow> ('a, 's) prog \<Rightarrow> ('a, 's \<times> 'c list) prog" where
  "logged c p = (\<lambda>(s, l). case p s of (r, s') \<Rightarrow> (r, (s', l @ [c])))"

definition unlogged :: "('a, 's) prog \<Rightarrow> ('a, 's \<times> 'c list) prog" where
  "unlogged p = (\<lambda>(s, l). case p s of (r, s') \<Rightarrow> (r, (s', l)))"

definition instrumented :: "('m, 's) Lockable \<Rightarrow> ('m, 's \<times> 'm method_call list) Lockable" where
  "instrumented M =
     \<lparr>Lock = (\<lambda>m. logged (Lock_call m) (Lock M m)),
      Unlock = (\<lambda>m. logged (Unlock_call m) (Unlock M m))\<rparr>"

text \<open>
  Two native interfaces agree on \<open>view\<close> when, for every call in every outside state, both
  block or both return, with the same new outside state and the same \<open>view\<close> of the result.
  A wrapper that behaves the same under any two such interfaces uses nothing of a native
  result but its \<open>view\<close>.
\<close>

definition agree_on :: "(native_result \<Rightarrow> 'v) \<Rightarrow> 'w native \<Rightarrow> 'w native \<Rightarrow> bool" where
  "agree_on view sys sys' =
     (\<forall>c s. map_option (\<lambda>(r, s'). (view r, s')) (sys c s) =
            map_option (\<lambda>(r, s'). (view r, s')) (sys' c s))"

text \<open>Sample native interfaces for concrete runs: every call returns at once, with status
  \<open>0\<close>, or with the given status for the given call only, or with the given status for every
  call, or storing the given thread handle.\<close>

definition ok_result :: native_result where
  "ok_result = \<lparr>status = 0, thread_out = None, value_out = None\<rparr>"

definition sys_ok :: "unit native" where
  "sys_ok c s = Some (ok_result, s)"

definition sys_failing :: "native_call \<Rightarrow> int \<Rightarrow> unit native" where
  "sys_failing bad e c s = Some (if c = bad then ok_result\<lparr>status := e\<rparr> else ok_result, s)"

definition sys_status :: "int \<Rightarrow> unit native" where
  "sys_status e c s = Some (ok_result\<lparr>status := e\<rparr>, s)"

definition sys_spawn :: "pthread_t \<Rightarrow> unit native" where
  "sys_spawn t c s = Some (ok_result\<lparr>thread_out := Some t\<rparr>, s)"

definition world0 :: "unit world" where
  "world0 = \<lparr>os = (), trace = []\<rparr>"

section \<open>Basic facts about programs\<close>

lemma bind_call:
  "bind_prog (call sys c) k w =
     (case sys c (os w) of
        None \<Rightarrow> (None, w\<lparr>trace := trace w @ [c]\<rparr>)
      | Some (r, s) \<Rightarrow> k r \<lparr>os = s, trace = trace w @ [c]\<rparr>)"
  by (simp add: bind_prog_def call_def split: option.split)

lemma trace_call: "trace (snd (call sys c w)) = trace w @ [c]"
  by (simp add: call_def split: option.split)

lemma run_call_return:
  "bind_prog (call sys c) (\<lambda>r. return_prog (f r)) w =
     (case sys c (os w) of
        None \<Rightarrow> (None, w\<lparr>trace := trace w @ [c]\<rparr>)
      | Some (r, s) \<Rightarrow> (Some (f r), \<lparr>os = s, trace = trace w @ [c]\<rparr>))"
  by (simp add: bind_call return_prog_def split: option.split)

lemma emitted_return: "emitted (return_prog a) w = []"
  by (simp add: emitted_def return_prog_def)

lemma emitted_call_return:
  "emitted (bind_prog (call sys c) (\<lambda>r. return_prog (f r))) w = [c]"
  by (simp add: emitted_def bind_call return_prog_def split: option.split)

lemma result_call_return:
  "fst (bind_prog (call sys c) (\<lambda>r. return_prog (f r)) w) =
     map_option (\<lambda>(r, s). f r) (sys c (os w))"
  by (simp add: bind_call return_prog_def split: option.split)

lemma agree_onD:
  assumes "agree_on view sys sys'"
  shows "(sys c s = None \<longleftrightarrow> sys' c s = None) \<and>
         (\<forall>r t r' t'. sys c s = Some (r, t) \<longrightarrow> sys' c s = Some (r', t') \<longrightarrow>
            view r = view r' \<and> t = t')"
proof -
  from assms have eq: "map_option (\<lambda>(r, s'). (view r, s')) (sys c s) =
      map_option (\<lambda>(r, s'). (view r, s')) (sys' c s)"
    by (simp add: agree_on_def)
  show ?thesis
    using eq by (cases "sys c s"; cases "sys' c s") auto
qed

lemma bind_call_agree:
  assumes agree: "agree_on view sys sys'"
    and cont: "\<And>r r' v. view r = view r' \<Longrightarrow> k r v = k' r' v"
  shows "bind_prog (call sys c) k w = bind_prog (call sys' c) k' w"
proof (cases "sys c (os w)")
  case None
  with agree_onD [OF agree, of c "os w"] have "sys' c (os w) = None" by simp
  with None show ?thesis by (simp add: bind_call)
next
  case (Some p)
  obtain r t where p: "p = (r, t)" by (cases p)
  with Some agree_onD [OF agree, of c "os w"] obtain r' t' where
    s': "sys' c (os w) = Some (r', t')" by (cases "sys' c (os w)") auto
  with Some p agree_onD [OF agree, of c "os w"] have "view r = view r'" "t = t'" by auto
  with Some p s' cont [of r r'] show ?thesis by (simp add: bind_call)
qed

section \<open>The raw-handle guard\<close>

text \<open>
  C1. \<open>LockGuard<pthread_mutex_t>\<close>: the constructor makes the native lock call and, when the
  call returns, yields a guard whose flag says whether the status was \<open>0\<close>. The destructor
  of any guard makes the native unlock call on the guard's mutex if the flag is set and makes
  no call otherwise. So for a guard built by the constructor the unlock call is made
  exactly when the lock call succeeded, and after a failed lock call the destructor makes no
  call at all and leaves the world as it was. Making a call means more than logging it: the
  outside state after the constructor is the one the lock call leaves, and after the
  destructor of a guard with the flag set it is the one the unlock call leaves; the
  destructor returns exactly when the unlock call does.
\<close>

theorem LockGuard_pthread_mutex_t_unlocks_iff_locked:
  "emitted (LockGuard_pthread_mutex_t_ctor sys mutex) w = [pthread_mutex_lock mutex] \<and>
   fst (LockGuard_pthread_mutex_t_ctor sys mutex w) =
     map_option (\<lambda>(r, s). \<lparr>Raw_mutex = mutex, Raw_unlock = (status r = 0)\<rparr>)
       (sys (pthread_mutex_lock mutex) (os w)) \<and>
   emitted (LockGuard_pthread_mutex_t_dtor sys this) w' =
     (if Raw_unlock this then [pthread_mutex_unlock (Raw_mutex this)] else []) \<and>
   (sys (pthread_mutex_lock mutex) (os w) = Some (r, s) \<longrightarrow>
      (\<exists>g. fst (LockGuard_pthread_mutex_t_ctor sys mutex w) = Some g \<and>
           (pthread_mutex_unlock mutex \<in> set (emitted (LockGuard_pthread_mutex_t_dtor sys g) w')
              \<longleftrightarrow> status r = 0) \<and>
           (status r \<noteq> 0 \<longrightarrow>
              emitted (LockGuard_pthread_mutex_t_dtor sys g) w' = [] \<and>
              LockGuard_pthread_mutex_t_dtor sys g w' = (Some (), w')) \<and>
           (status r = 0 \<longrightarrow>
              LockGuard_pthread_mutex_t_dtor sys g w' =
                (case sys (pthread_mutex_unlock mutex) (os w') of
                   None \<Rightarrow> (None, w'\<lparr>trace := trace w' @ [pthread_mutex_unlock mutex]\<rparr>)
                 | Some (r', s') \<Rightarrow>
                     (Some (), \<lparr>os = s', trace = trace w' @ [pthread_mutex_unlock mutex]\<rparr>))))) \<and>
   LockGuard_pthread_mutex_t_ctor sys mutex w =
     (case sys (pthread_mutex_lock mutex) (os w) of
        None \<Rightarrow> (None, w\<lparr>trace := trace w @ [pthread_mutex_lock mutex]\<rparr>)
      | Some (r', s') \<Rightarrow>
          (Some \<lparr>Raw_mutex = mutex, Raw_unlock = (status r' = 0)\<rparr>,
           \<lparr>os = s', trace = trace w @ [pthread_mutex_lock mutex]\<rparr>)) \<and>
   LockGuard_pthread_mutex_t_dtor sys this w' =
     (if Raw_unlock this then
        (case sys (pthread_mutex_unlock (Raw_mutex this)) (os w') of
           None \<Rightarrow> (None, w'\<lparr>trace := trace w' @ [pthread_mutex_unlock (Raw_mutex this)]\<rparr>)
         | Some (r', s') \<Rightarrow>
             (Some (), \<lparr>os = s', trace = trace w' @ [pthread_mutex_unlock (Raw_mutex this)]\<rparr>))
      else (Some (), w'))"
proof -
  have ctor_run: "LockGuard_pthread_mutex_t_ctor sys mutex w =
     (case sys (pthread_mutex_lock mutex) (os w) of
        None \<Rightarrow> (None, w\<lparr>trace := trace w @ [pthread_mutex_lock mutex]\<rparr>)
      | Some (r', s') \<Rightarrow>
          (Some \<lparr>Raw_mutex = mutex, Raw_unlock = (status r' = 0)\<rparr>,
           \<lparr>os = s', trace = trace w @ [pthread_mutex_lock mutex]\<rparr>))"
    by (simp add: LockGuard_pthread_mutex_t_ctor_def run_call_return split: option.split)
  have dtor_run: "LockGuard_pthread_mutex_t_dtor sys g v =
     (if Raw_unlock g then
        (case sys (pthread_mutex_unlock (Raw_mutex g)) (os v) of
           None \<Rightarrow> (None, v\<lparr>trace := trace v @ [pthread_mutex_unlock (Raw_mutex g)]\<rparr>)
         | Some (r', s') \<Rightarrow>
             (Some (), \<lparr>os = s', trace = trace v @ [pthread_mutex_unlock (Raw_mutex g)]\<rparr>))
      else (Some (), v))" for g v
    by (simp add: LockGuard_pthread_mutex_t_dtor_def run_call_return return_prog_def
        split: option.split)
  have ctor_calls:
    "emitted (LockGuard_pthread_mutex_t_ctor sys mutex) w = [pthread_mutex_lock mutex]"
    by (simp add: LockGuard_pthread_mutex_t_ctor_def emitted_call_return)
  have ctor_result:
    "fst (LockGuard_pthread_mutex_t_ctor sys mutex w) =
       map_option (\<lambda>(r, s). \<lparr>Raw_mutex = mutex, Raw_unlock = (status r = 0)\<rparr>)
         (sys (pthread_mutex_lock mutex) (os w))"
    by (simp add: LockGuard_pthread_mutex_t_ctor_def result_call_return)
  have dtor_calls: "emitted (LockGuard_pthread_mutex_t_dtor sys g) v =
      (if Raw_unlock g then [pthread_mutex_unlock (Raw_mutex g)] else [])" for g v
    by (simp add: LockGuard_pthread_mutex_t_dtor_def emitted_call_return emitted_return)
  have life: "\<exists>g. fst (LockGuard_pthread_mutex_t_ctor sys mutex w) = Some g \<and>
           (pthread_mutex_unlock mutex \<in> set (emitted (LockGuard_pthread_mutex_t_dtor sys g) w')
              \<longleftrightarrow> status r = 0) \<and>
           (status r \<noteq> 0 \<longrightarrow>
              emitted (LockGuard_pthread_mutex_t_dtor sys g) w' = [] \<and>
              LockGuard_pthread_mutex_t_dtor sys g w' = (Some (), w')) \<and>
           (status r = 0 \<longrightarrow>
              LockGuard_pthread_mutex_t_dtor sys g w' =
                (case sys (pthread_mutex_unlock mutex) (os w') of
                   None \<Rightarrow> (None, w'\<lparr>trace := trace w' @ [pthread_mutex_unlock mutex]\<rparr>)
                 | Some (r', s') \<Rightarrow>
                     (Some (), \<lparr>os = s', trace = trace w' @ [pthread_mutex_unlock mutex]\<rparr>)))"
    if lock: "sys (pthread_mutex_lock mutex) (os w) = Some (r, s)"
  proof (intro exI conjI)
    show "fst (LockGuard_pthread_mutex_t_ctor sys mutex w) =
        Some \<lparr>Raw_mutex = mutex, Raw_unlock = (status r = 0)\<rparr>"
      using lock by (simp add: ctor_result)
  qed (simp_all add: dtor_calls dtor_run split: option.split)
  show ?thesis
    using life by (intro conjI impI ctor_calls ctor_result dtor_calls ctor_run dtor_run) blast
qed

theorem LockGuard_pthread_mutex_t_failed_lock_run:
  "sys_failing (pthread_mutex_lock 7) 22 (pthread_mutex_lock 7) (os world0) =
     Some (ok_result\<lparr>status := 22\<rparr>, ()) \<and>
   (\<exists>g. fst (LockGuard_pthread_mutex_t_ctor (sys_failing (pthread_mutex_lock 7) 22) 7 world0)
          = Some g \<and>
        emitted (LockGuard_pthread_mutex_t_dtor (sys_failing (pthread_mutex_lock 7) 22) g)
          world0 = []) \<and>
   LockGuard_pthread_mutex_t_ctor sys_ok 7 world0 =
     (Some \<lparr>Raw_mutex = 7, Raw_unlock = True\<rparr>, \<lparr>os = (), trace = [pthread_mutex_lock 7]\<rparr>) \<and>
   LockGuard_pthread_mutex_t_dtor sys_ok \<lparr>Raw_mutex = 7, Raw_unlock = True\<rparr>
       \<lparr>os = (), trace = [pthread_mutex_lock 7]\<rparr> =
     (Some (), \<lparr>os = (), trace = [pthread_mutex_lock 7, pthread_mutex_unlock 7]\<rparr>)"
  using LockGuard_pthread_mutex_t_unlocks_iff_locked
    [of "sys_failing (pthread_mutex_lock 7) 22" 7 world0 _ world0 "ok_result\<lparr>status := 22\<rparr>" "()"]
    LockGuard_pthread_mutex_t_unlocks_iff_locked
    [of sys_ok 7 world0 "\<lparr>Raw_mutex = 7, Raw_unlock = True\<rparr>"
        "\<lparr>os = (), trace = [pthread_mutex_lock 7]\<rparr>" ok_result "()"]
  by (simp add: sys_failing_def sys_ok_def world0_def ok_result_def)

section \<open>Status codes of the condition variable\<close>

text \<open>
  C2. Each of \<open>NotifyOne\<close>, \<open>NotifyAll\<close>, \<open>Wait\<close> and \<open>WaitUntil\<close> makes exactly one native call
  (signal, broadcast, wait, and the timed wait of the build) and, when that call returns,
  returns its status as it is; when the call never returns, neither does the method.
\<close>

theorem ConditionVariable_returns_native_status:
  "emitted (NotifyOne sys cv) w = [pthread_cond_signal (CV_cond cv)] \<and>
   fst (NotifyOne sys cv w) =
     map_option (\<lambda>(r, s). status r) (sys (pthread_cond_signal (CV_cond cv)) (os w)) \<and>
   emitted (NotifyAll sys cv) w = [pthread_cond_broadcast (CV_cond cv)] \<and>
   fst (NotifyAll sys cv w) =
     map_option (\<lambda>(r, s). status r) (sys (pthread_cond_broadcast (CV_cond cv)) (os w)) \<and>
   emitted (Wait sys cv) w = [pthread_cond_wait (CV_cond cv) (Mutex_mutex (CV_mutex cv))] \<and>
   fst (Wait sys cv w) =
     map_option (\<lambda>(r, s). status r)
       (sys (pthread_cond_wait (CV_cond cv) (Mutex_mutex (CV_mutex cv))) (os w)) \<and>
   emitted (WaitUntil True ToTimespec sys cv tp) w =
     [pthread_cond_timedwait_monotonic_np (CV_cond cv) (Mutex_mutex (CV_mutex cv))
        (ToTimespec tp)] \<and>
   fst (WaitUntil True ToTimespec sys cv tp w) =
     map_option (\<lambda>(r, s). status r)
       (sys (pthread_cond_timedwait_monotonic_np (CV_cond cv) (Mutex_mutex (CV_mutex cv))
          (ToTimespec tp)) (os w)) \<and>
   emitted (WaitUntil False ToTimespec sys cv tp) w =
     [pthread_cond_timedwait (CV_cond cv) (Mutex_mutex (CV_mutex cv)) (ToTimespec tp)] \<and>
   fst (WaitUntil False ToTimespec sys cv tp w) =
     map_option (\<lambda>(r, s). status r)
       (sys (pthread_cond_timedwait (CV_cond cv) (Mutex_mutex (CV_mutex cv))
          (ToTimespec tp)) (os w))"
  by (simp add: NotifyOne_def NotifyAll_def Wait_def WaitUntil_def GetMutex_def
      emitted_call_return result_call_return)

theorem ConditionVariable_status_run:
  "fst (WaitUntil False (\<lambda>n. \<lparr>tv_sec = n, tv_nsec = 0\<rparr>)
         (sys_failing (pthread_cond_timedwait 4 3 \<lparr>tv_sec = 5, tv_nsec = 0\<rparr>) 110)
         \<lparr>CV_mutex = \<lparr>Mutex_mutex = 3\<rparr>, CV_cond = 4\<rparr> 5 world0) = Some 110 \<and>
   fst (NotifyOne (sys_failing (pthread_cond_signal 4) 22)
         \<lparr>CV_mutex = \<lparr>Mutex_mutex = 3\<rparr>, CV_cond = 4\<rparr> world0) = Some 22"
  using ConditionVariable_returns_native_status
    [of "sys_failing (pthread_cond_signal 4) 22" "\<lparr>CV_mutex = \<lparr>Mutex_mutex = 3\<rparr>, CV_cond = 4\<rparr>"
        world0 "\<lambda>n. \<lparr>tv_sec = n, tv_nsec = 0\<rparr>" 5]
    ConditionVariable_returns_native_status
    [of "sys_failing (pthread_cond_timedwait 4 3 \<lparr>tv_sec = 5, tv_nsec = 0\<rparr>) 110"
        "\<lparr>CV_mutex = \<lparr>Mutex_mutex = 3\<rparr>, CV_cond = 4\<rparr>"
        world0 "\<lambda>n. \<lparr>tv_sec = n, tv_nsec = 0\<rparr>" 5]
  by (simp add: sys_failing_def world0_def ok_result_def)

lemma bind_return: "bind_prog p return_prog = p"
  by (rule ext) (simp add: bind_prog_def return_prog_def split: prod.split option.split)

lemma LockGuard_dtor_eq: "LockGuard_dtor M g = Unlock M (LockGuard_mutex g)"
  by (simp add: LockGuard_dtor_def bind_return)

lemma LockGuard_ctor_run:
  "LockGuard_ctor M mutex s =
     (map_option (\<lambda>_. \<lparr>LockGuard_mutex = mutex\<rparr>) (fst (Lock M mutex s)), snd (Lock M mutex s))"
  by (simp add: LockGuard_ctor_def bind_prog_def return_prog_def split: prod.split option.split)

lemma logged_run: "logged c p (s, l) = (fst (p s), (snd (p s), l @ [c]))"
  by (simp add: logged_def split: prod.split)

lemma unlogged_run: "unlogged p (s, l) = (fst (p s), (snd (p s), l))"
  by (simp add: unlogged_def split: prod.split)

lemma scoped_run:
  "scoped ctor dtor body s =
     (case ctor s of
        (None, s1) \<Rightarrow> (None, s1)
      | (Some g, s1) \<Rightarrow>
          (case body s1 of
             (None, s2) \<Rightarrow> (None, s2)
           | (Some x, s2) \<Rightarrow> (map_option (\<lambda>_. x) (fst (dtor g s2)), snd (dtor g s2))))"
  by (simp add: scoped_def bind_prog_def return_prog_def split: prod.split option.split)

section \<open>The generic guard\<close>

text \<open>
  C3. \<open>LockGuard<M>\<close>, for every \<open>M\<close>: the constructor calls \<open>Lock\<close> of the referenced lock
  exactly once and does nothing else, the destructor of any guard calls \<open>Unlock\<close> of the guard's
  lock exactly once, in every state and with no condition, and the guard the constructor
  yields refers to the lock it was given. Counting calls does not change what the guard
  does. Over a block (constructor, any body, destructor) the guard's calls are one \<open>Lock\<close> and,
  once the body has returned, one \<open>Unlock\<close> of the same lock. For \<open>M = Mutex\<close> these are one
  native lock call and one native unlock call on the mutex's handle.
\<close>

theorem LockGuard_locks_once_unlocks_once:
  "snd (snd (LockGuard_ctor (instrumented M) mutex (s, l))) = l @ [Lock_call mutex] \<and>
   snd (snd (LockGuard_dtor (instrumented M) g (s, l))) = l @ [Unlock_call (LockGuard_mutex g)] \<and>
   fst (LockGuard_ctor (instrumented M) mutex (s, l)) = fst (LockGuard_ctor M mutex s) \<and>
   fst (snd (LockGuard_ctor (instrumented M) mutex (s, l))) = snd (LockGuard_ctor M mutex s) \<and>
   fst (LockGuard_dtor (instrumented M) g (s, l)) = fst (LockGuard_dtor M g s) \<and>
   fst (snd (LockGuard_dtor (instrumented M) g (s, l))) = snd (LockGuard_dtor M g s) \<and>
   fst (LockGuard_ctor M mutex s) =
     map_option (\<lambda>_. \<lparr>LockGuard_mutex = mutex\<rparr>) (fst (Lock M mutex s)) \<and>
   snd (LockGuard_ctor M mutex s) = snd (Lock M mutex s) \<and>
   LockGuard_dtor M g s = Unlock M (LockGuard_mutex g) s \<and>
   snd (snd (scoped (LockGuard_ctor (instrumented M) mutex) (LockGuard_dtor (instrumented M))
               (unlogged body) (s, l))) =
     l @ (case fst (Lock M mutex s) of
            None \<Rightarrow> [Lock_call mutex]
          | Some _ \<Rightarrow>
              (case fst (body (snd (Lock M mutex s))) of
                 None \<Rightarrow> [Lock_call mutex]
               | Some _ \<Rightarrow> [Lock_call mutex, Unlock_call mutex])) \<and>
   emitted (LockGuard_ctor (Mutex_Lockable sys) m) w = [pthread_mutex_lock (Mutex_mutex m)] \<and>
   emitted (LockGuard_dtor (Mutex_Lockable sys) gm) w =
     [pthread_mutex_unlock (Mutex_mutex (LockGuard_mutex gm))]"
proof -
  have ctor_i: "LockGuard_ctor (instrumented M) mutex (s, l) =
      (map_option (\<lambda>_. \<lparr>LockGuard_mutex = mutex\<rparr>) (fst (Lock M mutex s)),
       (snd (Lock M mutex s), l @ [Lock_call mutex]))"
    by (simp add: LockGuard_ctor_run instrumented_def logged_run)
  have dtor_i: "LockGuard_dtor (instrumented M) g' (s', l') =
      (fst (Unlock M (LockGuard_mutex g') s'), (snd (Unlock M (LockGuard_mutex g') s'),
        l' @ [Unlock_call (LockGuard_mutex g')]))" for g' s' l'
    by (simp add: LockGuard_dtor_eq instrumented_def logged_run)
  have c1: "snd (snd (LockGuard_ctor (instrumented M) mutex (s, l))) = l @ [Lock_call mutex]"
    by (simp add: ctor_i)
  have c2: "snd (snd (LockGuard_dtor (instrumented M) g (s, l))) =
      l @ [Unlock_call (LockGuard_mutex g)]"
    by (simp add: dtor_i)
  have c3: "fst (LockGuard_ctor (instrumented M) mutex (s, l)) = fst (LockGuard_ctor M mutex s)"
    by (simp add: ctor_i) (simp add: LockGuard_ctor_run)
  have c4: "fst (snd (LockGuard_ctor (instrumented M) mutex (s, l))) =
      snd (LockGuard_ctor M mutex s)"
    by (simp add: ctor_i) (simp add: LockGuard_ctor_run)
  have c5: "fst (LockGuard_dtor (instrumented M) g (s, l)) = fst (LockGuard_dtor M g s)"
    by (simp add: dtor_i) (simp add: LockGuard_dtor_eq)
  have c6: "fst (snd (LockGuard_dtor (instrumented M) g (s, l))) = snd (LockGuard_dtor M g s)"
    by (simp add: dtor_i) (simp add: LockGuard_dtor_eq)
  have c7: "fst (LockGuard_ctor M mutex s) =
      map_option (\<lambda>_. \<lparr>LockGuard_mutex = mutex\<rparr>) (fst (Lock M mutex s))"
    by (simp add: LockGuard_ctor_run)
  have c8: "snd (LockGuard_ctor M mutex s) = snd (Lock M mutex s)"
    by (simp add: LockGuard_ctor_run)
  have c9: "LockGuard_dtor M g s = Unlock M (LockGuard_mutex g) s"
    by (simp add: LockGuard_dtor_eq)
  have c10: "snd (snd (scoped (LockGuard_ctor (instrumented M) mutex)
        (LockGuard_dtor (instrumented M)) (unlogged body) (s, l))) =
     l @ (case fst (Lock M mutex s) of
            None \<Rightarrow> [Lock_call mutex]
          | Some _ \<Rightarrow>
              (case fst (body (snd (Lock M mutex s))) of
                 None \<Rightarrow> [Lock_call mutex]
               | Some _ \<Rightarrow> [Lock_call mutex, Unlock_call mutex]))"
    by (simp add: scoped_run ctor_i dtor_i unlogged_run split: option.split)
  have c11:
    "emitted (LockGuard_ctor (Mutex_Lockable sys) m) w = [pthread_mutex_lock (Mutex_mutex m)]"
    by (simp add: LockGuard_ctor_run Mutex_Lockable_def Mutex_Lock_def emitted_def bind_call
        return_prog_def split: option.split)
  have c12: "emitted (LockGuard_dtor (Mutex_Lockable sys) gm) w =
     [pthread_mutex_unlock (Mutex_mutex (LockGuard_mutex gm))]"
    by (simp add: LockGuard_dtor_eq Mutex_Lockable_def Mutex_Unlock_def emitted_call_return)
  show ?thesis
    by (intro conjI c1 c2 c3 c4 c5 c6 c7 c8 c9 c10 c11 c12)
qed

theorem LockGuard_Mutex_scope_run:
  "snd (snd (scoped (LockGuard_ctor (instrumented (Mutex_Lockable sys_ok)) \<lparr>Mutex_mutex = 3\<rparr>)
               (LockGuard_dtor (instrumented (Mutex_Lockable sys_ok)))
               (unlogged (return_prog (Inl ''failed'' :: string + nat))) (world0, []))) =
     [Lock_call \<lparr>Mutex_mutex = 3\<rparr>, Unlock_call \<lparr>Mutex_mutex = 3\<rparr>] \<and>
   trace (fst (snd (scoped (LockGuard_ctor (instrumented (Mutex_Lockable sys_ok)) \<lparr>Mutex_mutex = 3\<rparr>)
               (LockGuard_dtor (instrumented (Mutex_Lockable sys_ok)))
               (unlogged (return_prog (Inl ''failed'' :: string + nat))) (world0, [])))) =
     [pthread_mutex_lock 3, pthread_mutex_unlock 3]"
  using LockGuard_locks_once_unlocks_once
    [of "Mutex_Lockable sys_ok" "\<lparr>Mutex_mutex = 3\<rparr>" world0 "[]" _
        "return_prog (Inl ''failed'' :: string + nat)"]
  by (simp add: scoped_run LockGuard_ctor_run LockGuard_dtor_eq instrumented_def logged_run
      unlogged_run Mutex_Lockable_def Mutex_Lock_def Mutex_Unlock_def bind_call sys_ok_def
      world0_def return_prog_def)

lemma agree_on_const_status: "agree_on thread_out sys_ok (sys_status e)"
  by (simp add: agree_on_def sys_ok_def sys_status_def ok_result_def)

section \<open>Unchecked construction\<close>

text \<open>
  C4. The constructors of \<open>Mutex\<close>, \<open>ConditionVariable\<close> and \<open>ScopedThread\<close> make their native
  creation calls and use nothing of the status: under two native interfaces that differ only
  in the results they hand back (for \<open>ScopedThread\<close>: only in the status and the join value)
  a constructor does exactly the same, and whenever the creation call returns, whatever its
  status, the constructor yields the object; there is no failure value.
\<close>

theorem constructors_discard_native_status:
  "(agree_on (\<lambda>_. ()) sys sys' \<longrightarrow>
      Mutex_ctor sys this w = Mutex_ctor sys' this w \<and>
      ConditionVariable_ctor b sys cthis mutex w = ConditionVariable_ctor b sys' cthis mutex w) \<and>
   (agree_on thread_out sys sys' \<longrightarrow>
      ScopedThread_ctor sys uninit start arg w = ScopedThread_ctor sys' uninit start arg w) \<and>
   fst (Mutex_ctor sys this w) =
     map_option (\<lambda>_. \<lparr>Mutex_mutex = this\<rparr>) (sys (pthread_mutex_init this NULL) (os w)) \<and>
   fst (ConditionVariable_ctor True sys cthis mutex w) =
     map_option (\<lambda>_. \<lparr>CV_mutex = mutex, CV_cond = cthis\<rparr>)
       (sys (pthread_cond_init cthis NULL) (os w)) \<and>
   ((\<forall>c s. sys c s \<noteq> None) \<longrightarrow>
      fst (ConditionVariable_ctor False sys cthis mutex w) =
        Some \<lparr>CV_mutex = mutex, CV_cond = cthis\<rparr>) \<and>
   fst (ScopedThread_ctor sys uninit start arg w) =
     map_option (\<lambda>(r, s). \<lparr>ScopedThread_thread = (case thread_out r of None \<Rightarrow> uninit | Some t \<Rightarrow> t)\<rparr>)
       (sys (pthread_create NULL start arg) (os w))"
proof -
  have mutex: "Mutex_ctor sys this w = Mutex_ctor sys' this w"
    if "agree_on (\<lambda>_. ()) sys sys'"
    unfolding Mutex_ctor_def by (rule bind_call_agree [OF that]) simp
  have cond: "ConditionVariable_ctor b sys cthis mutex w =
      ConditionVariable_ctor b sys' cthis mutex w"
    if "agree_on (\<lambda>_. ()) sys sys'"
    unfolding ConditionVariable_ctor_def
    by (auto intro!: bind_call_agree [OF that])
  have thread: "ScopedThread_ctor sys uninit start arg w =
      ScopedThread_ctor sys' uninit start arg w"
    if "agree_on thread_out sys sys'"
    unfolding ScopedThread_ctor_def by (rule bind_call_agree [OF that]) simp
  have r1: "fst (Mutex_ctor sys this w) =
     map_option (\<lambda>_. \<lparr>Mutex_mutex = this\<rparr>) (sys (pthread_mutex_init this NULL) (os w))"
    by (simp add: Mutex_ctor_def bind_call return_prog_def split: option.split)
  have r2: "fst (ConditionVariable_ctor True sys cthis mutex w) =
     map_option (\<lambda>_. \<lparr>CV_mutex = mutex, CV_cond = cthis\<rparr>)
       (sys (pthread_cond_init cthis NULL) (os w))"
    by (simp add: ConditionVariable_ctor_def bind_call return_prog_def split: option.split)
  have r3: "fst (ConditionVariable_ctor False sys cthis mutex w) =
        Some \<lparr>CV_mutex = mutex, CV_cond = cthis\<rparr>" if ret: "\<forall>c s. sys c s \<noteq> None"
  proof -
    have returns: "(sys c s = None) = False" for c s
      using ret by simp
    show ?thesis
      by (simp add: ConditionVariable_ctor_def bind_call return_prog_def returns
          split: option.split)
  qed
  have r4: "fst (ScopedThread_ctor sys uninit start arg w) =
     map_option (\<lambda>(r, s). \<lparr>ScopedThread_thread = (case thread_out r of None \<Rightarrow> uninit | Some t \<Rightarrow> t)\<rparr>)
       (sys (pthread_create NULL start arg) (os w))"
    by (simp add: ScopedThread_ctor_def result_call_return)
  show ?thesis
    using mutex cond thread r1 r2 r3 r4 by blast
qed

theorem constructors_failed_creation_run:
  "agree_on (\<lambda>_. ()) sys_ok (sys_status 12) \<and>
   agree_on thread_out sys_ok (sys_status 12) \<and>
   Mutex_ctor (sys_status 12) 3 world0 = Mutex_ctor sys_ok 3 world0 \<and>
   fst (Mutex_ctor (sys_status 12) 3 world0) = Some \<lparr>Mutex_mutex = 3\<rparr> \<and>
   fst (ConditionVariable_ctor False (sys_status 12) 4 \<lparr>Mutex_mutex = 3\<rparr> world0) =
     Some \<lparr>CV_mutex = \<lparr>Mutex_mutex = 3\<rparr>, CV_cond = 4\<rparr> \<and>
   ScopedThread_ctor (sys_status 11) 99 1 2 world0 = ScopedThread_ctor sys_ok 99 1 2 world0 \<and>
   fst (ScopedThread_ctor (sys_status 11) 99 1 2 world0) = Some \<lparr>ScopedThread_thread = 99\<rparr>"
proof -
  have a: "agree_on (\<lambda>_. ()) sys_ok (sys_status e)" for e
    by (simp add: agree_on_def sys_ok_def sys_status_def)
  have b: "agree_on thread_out sys_ok (sys_status e)" for e
    by (rule agree_on_const_status)
  have n: "\<forall>c s. sys_status 12 c s \<noteq> None"
    by (simp add: sys_status_def)
  show ?thesis
    using a [of 12] b [of 12] b [of 11] n
      constructors_discard_native_status
        [of sys_ok "sys_status 12" 3 world0 False 4 "\<lparr>Mutex_mutex = 3\<rparr>" 99 1 2]
      constructors_discard_native_status
        [of sys_ok "sys_status 11" 3 world0 False 4 "\<lparr>Mutex_mutex = 3\<rparr>" 99 1 2]
      constructors_discard_native_status
        [of "sys_status 12" sys_ok 3 world0 False 4 "\<lparr>Mutex_mutex = 3\<rparr>" 99 1 2]
      constructors_discard_native_status
        [of "sys_status 11" sys_ok 3 world0 False 4 "\<lparr>Mutex_mutex = 3\<rparr>" 99 1 2]
    by (simp add: sys_status_def sys_ok_def ok_result_def world0_def)
qed

lemma agree_on_unit_const_status: "agree_on (\<lambda>_. ()) sys_ok (sys_status e)"
  by (simp add: agree_on_def sys_ok_def sys_status_def)

section \<open>Lock and Unlock return nothing\<close>

text \<open>
  C9. \<open>Mutex::Lock\<close> and \<open>Mutex::Unlock\<close> make one native call each and return no value:
  when the call returns they return, whatever its status, and under two native interfaces
  that differ only in the results they hand back they do exactly the same. A caller cannot
  tell a failed native lock or unlock from a successful one.
\<close>

theorem Mutex_Lock_Unlock_discard_status:
  "(agree_on (\<lambda>_. ()) sys sys' \<longrightarrow>
      Mutex_Lock sys m w = Mutex_Lock sys' m w \<and>
      Mutex_Unlock sys m w = Mutex_Unlock sys' m w) \<and>
   emitted (Mutex_Lock sys m) w = [pthread_mutex_lock (Mutex_mutex m)] \<and>
   emitted (Mutex_Unlock sys m) w = [pthread_mutex_unlock (Mutex_mutex m)] \<and>
   fst (Mutex_Lock sys m w) =
     map_option (\<lambda>_. ()) (sys (pthread_mutex_lock (Mutex_mutex m)) (os w)) \<and>
   fst (Mutex_Unlock sys m w) =
     map_option (\<lambda>_. ()) (sys (pthread_mutex_unlock (Mutex_mutex m)) (os w))"
proof -
  have lock: "Mutex_Lock sys m w = Mutex_Lock sys' m w" if "agree_on (\<lambda>_. ()) sys sys'"
    unfolding Mutex_Lock_def by (rule bind_call_agree [OF that]) simp
  have unlock: "Mutex_Unlock sys m w = Mutex_Unlock sys' m w" if "agree_on (\<lambda>_. ()) sys sys'"
    unfolding Mutex_Unlock_def by (rule bind_call_agree [OF that]) simp
  have e1: "emitted (Mutex_Lock sys m) w = [pthread_mutex_lock (Mutex_mutex m)]"
    unfolding Mutex_Lock_def by (rule emitted_call_return)
  have e2: "emitted (Mutex_Unlock sys m) w = [pthread_mutex_unlock (Mutex_mutex m)]"
    unfolding Mutex_Unlock_def by (rule emitted_call_return)
  have r1: "fst (Mutex_Lock sys m w) =
     map_option (\<lambda>_. ()) (sys (pthread_mutex_lock (Mutex_mutex m)) (os w))"
    by (simp add: Mutex_Lock_def bind_call return_prog_def split: option.split)
  have r2: "fst (Mutex_Unlock sys m w) =
     map_option (\<lambda>_. ()) (sys (pthread_mutex_unlock (Mutex_mutex m)) (os w))"
    by (simp add: Mutex_Unlock_def bind_call return_prog_def split: option.split)
  show ?thesis
    using lock unlock e1 e2 r1 r2 by blast
qed

theorem Mutex_Lock_failed_run:
  "agree_on (\<lambda>_. ()) sys_ok (sys_status 22) \<and>
   Mutex_Lock (sys_status 22) \<lparr>Mutex_mutex = 3\<rparr> world0 =
     Mutex_Lock sys_ok \<lparr>Mutex_mutex = 3\<rparr> world0 \<and>
   Mutex_Unlock (sys_status 1) \<lparr>Mutex_mutex = 3\<rparr> world0 =
     Mutex_Unlock sys_ok \<lparr>Mutex_mutex = 3\<rparr> world0 \<and>
   fst (Mutex_Lock (sys_status 22) \<lparr>Mutex_mutex = 3\<rparr> world0) = Some ()"
  using agree_on_unit_const_status [of 22] agree_on_unit_const_status [of 1]
    Mutex_Lock_Unlock_discard_status [of sys_ok "sys_status 22" "\<lparr>Mutex_mutex = 3\<rparr>" world0]
    Mutex_Lock_Unlock_discard_status [of sys_ok "sys_status 1" "\<lparr>Mutex_mutex = 3\<rparr>" world0]
    Mutex_Lock_Unlock_discard_status [of "sys_status 22" sys_ok "\<lparr>Mutex_mutex = 3\<rparr>" world0]
  by (simp add: sys_status_def world0_def)

section \<open>The thread guard\<close>

text \<open>
  C7. \<open>ScopedThread\<close>: the constructor makes exactly one native call, the creation of a thread
  with default attributes running the given entry function on the given argument; there is
  no further call to start it. The destructor makes exactly one native call, the join of the
  guard's handle; it returns exactly when the join returns, and it yields nothing and does
  the same whatever the join hands back (status and thread return value). When the creation
  call stored a handle, the guard's life consists of the creation and the join of that
  handle, and of no other native call. The calls are really made: the outside state after the
  constructor is the one the creation call leaves, and the outside state after the
  destructor is the one the join leaves. The class has no other operation: on a constructed
  guard only the destructor applies, it leads to the final stage, and nothing applies there.
  (What the created thread does, and that a join returns once it has ended, is the behaviour
  of the native calls themselves.)
\<close>

theorem ScopedThread_creates_once_joins_once:
  "emitted (ScopedThread_ctor sys uninit start arg) w = [pthread_create NULL start arg] \<and>
   fst (ScopedThread_ctor sys uninit start arg w) =
     map_option (\<lambda>(r, s). \<lparr>ScopedThread_thread = (case thread_out r of None \<Rightarrow> uninit | Some t \<Rightarrow> t)\<rparr>)
       (sys (pthread_create NULL start arg) (os w)) \<and>
   emitted (ScopedThread_dtor sys this) w' = [pthread_join (ScopedThread_thread this)] \<and>
   fst (ScopedThread_dtor sys this w') =
     map_option (\<lambda>_. ()) (sys (pthread_join (ScopedThread_thread this)) (os w')) \<and>
   (agree_on (\<lambda>_. ()) sys sys' \<longrightarrow>
      ScopedThread_dtor sys this w' = ScopedThread_dtor sys' this w') \<and>
   (sys (pthread_create NULL start arg) (os w) = Some (r, s) \<and> thread_out r = Some t \<longrightarrow>
      emitted (scoped (ScopedThread_ctor sys uninit start arg) (ScopedThread_dtor sys)
                 (return_prog ())) w =
        [pthread_create NULL start arg, pthread_join t]) \<and>
   ScopedThread_ctor sys uninit start arg w =
     (case sys (pthread_create NULL start arg) (os w) of
        None \<Rightarrow> (None, w\<lparr>trace := trace w @ [pthread_create NULL start arg]\<rparr>)
      | Some (r', s') \<Rightarrow>
          (Some \<lparr>ScopedThread_thread = (case thread_out r' of None \<Rightarrow> uninit | Some t' \<Rightarrow> t')\<rparr>,
           \<lparr>os = s', trace = trace w @ [pthread_create NULL start arg]\<rparr>)) \<and>
   ScopedThread_dtor sys this w' =
     (case sys (pthread_join (ScopedThread_thread this)) (os w') of
        None \<Rightarrow> (None, w'\<lparr>trace := trace w' @ [pthread_join (ScopedThread_thread this)]\<rparr>)
      | Some (r', s') \<Rightarrow>
          (Some (), \<lparr>os = s', trace = trace w' @ [pthread_join (ScopedThread_thread this)]\<rparr>)) \<and>
   scoped (ScopedThread_ctor sys uninit start arg) (ScopedThread_dtor sys) (return_prog ()) w =
     (case sys (pthread_create NULL start arg) (os w) of
        None \<Rightarrow> (None, w\<lparr>trace := trace w @ [pthread_create NULL start arg]\<rparr>)
      | Some (r', s') \<Rightarrow>
          (case sys (pthread_join (case thread_out r' of None \<Rightarrow> uninit | Some t' \<Rightarrow> t')) s' of
             None \<Rightarrow>
               (None,
                \<lparr>os = s',
                 trace = trace w @
                   [pthread_create NULL start arg,
                    pthread_join (case thread_out r' of None \<Rightarrow> uninit | Some t' \<Rightarrow> t')]\<rparr>)
           | Some (r'', s'') \<Rightarrow>
               (Some (),
                \<lparr>os = s'',
                 trace = trace w @
                   [pthread_create NULL start arg,
                    pthread_join (case thread_out r' of None \<Rightarrow> uninit | Some t' \<Rightarrow> t')]\<rparr>))) \<and>
   ScopedThread_apply sys m Joined = None \<and>
   (ScopedThread_apply sys m (Running this) \<noteq> None) = (m = ScopedThread_destroy) \<and>
   (ScopedThread_apply sys m (Unbuilt uninit) \<noteq> None) =
     (\<exists>start' arg'. m = ScopedThread_construct start' arg') \<and>
   map_option (\<lambda>p. p w)
       (ScopedThread_apply sys (ScopedThread_construct start arg) (Unbuilt uninit)) =
     Some (case sys (pthread_create NULL start arg) (os w) of
             None \<Rightarrow> (None, w\<lparr>trace := trace w @ [pthread_create NULL start arg]\<rparr>)
           | Some (r', s') \<Rightarrow>
               (Some (Running
                  \<lparr>ScopedThread_thread = (case thread_out r' of None \<Rightarrow> uninit | Some t' \<Rightarrow> t')\<rparr>),
                \<lparr>os = s', trace = trace w @ [pthread_create NULL start arg]\<rparr>)) \<and>
   map_option (\<lambda>p. p w') (ScopedThread_apply sys ScopedThread_destroy (Running this)) =
     Some (case sys (pthread_join (ScopedThread_thread this)) (os w') of
             None \<Rightarrow>
               (None, w'\<lparr>trace := trace w' @ [pthread_join (ScopedThread_thread this)]\<rparr>)
           | Some (r', s') \<Rightarrow>
               (Some Joined,
                \<lparr>os = s', trace = trace w' @ [pthread_join (ScopedThread_thread this)]\<rparr>))"
proof -
  have c1: "emitted (ScopedThread_ctor sys uninit start arg) w = [pthread_create NULL start arg]"
    unfolding ScopedThread_ctor_def by (rule emitted_call_return)
  have c2: "fst (ScopedThread_ctor sys uninit start arg w) =
     map_option (\<lambda>(r, s). \<lparr>ScopedThread_thread = (case thread_out r of None \<Rightarrow> uninit | Some t \<Rightarrow> t)\<rparr>)
       (sys (pthread_create NULL start arg) (os w))"
    by (simp add: ScopedThread_ctor_def result_call_return)
  have c3: "emitted (ScopedThread_dtor sys this) w' = [pthread_join (ScopedThread_thread this)]"
    unfolding ScopedThread_dtor_def by (rule emitted_call_return)
  have c4: "fst (ScopedThread_dtor sys this w') =
     map_option (\<lambda>_. ()) (sys (pthread_join (ScopedThread_thread this)) (os w'))"
    by (simp add: ScopedThread_dtor_def bind_call return_prog_def split: option.split)
  have c5: "agree_on (\<lambda>_. ()) sys sys' \<longrightarrow>
      ScopedThread_dtor sys this w' = ScopedThread_dtor sys' this w'"
  proof
    assume a: "agree_on (\<lambda>_. ()) sys sys'"
    show "ScopedThread_dtor sys this w' = ScopedThread_dtor sys' this w'"
      unfolding ScopedThread_dtor_def by (rule bind_call_agree [OF a]) simp
  qed
  have c6: "sys (pthread_create NULL start arg) (os w) = Some (r, s) \<and> thread_out r = Some t \<longrightarrow>
      emitted (scoped (ScopedThread_ctor sys uninit start arg) (ScopedThread_dtor sys)
                 (return_prog ())) w = [pthread_create NULL start arg, pthread_join t]"
    by (simp add: scoped_run ScopedThread_ctor_def ScopedThread_dtor_def emitted_def bind_call
        return_prog_def split: option.split)
  have c7: "ScopedThread_ctor sys uninit start arg w =
     (case sys (pthread_create NULL start arg) (os w) of
        None \<Rightarrow> (None, w\<lparr>trace := trace w @ [pthread_create NULL start arg]\<rparr>)
      | Some (r', s') \<Rightarrow>
          (Some \<lparr>ScopedThread_thread = (case thread_out r' of None \<Rightarrow> uninit | Some t' \<Rightarrow> t')\<rparr>,
           \<lparr>os = s', trace = trace w @ [pthread_create NULL start arg]\<rparr>))"
    by (simp add: ScopedThread_ctor_def run_call_return split: option.split)
  have c8: "ScopedThread_dtor sys this w' =
     (case sys (pthread_join (ScopedThread_thread this)) (os w') of
        None \<Rightarrow> (None, w'\<lparr>trace := trace w' @ [pthread_join (ScopedThread_thread this)]\<rparr>)
      | Some (r', s') \<Rightarrow>
          (Some (), \<lparr>os = s', trace = trace w' @ [pthread_join (ScopedThread_thread this)]\<rparr>))"
    by (simp add: ScopedThread_dtor_def run_call_return split: option.split)
  have c9: "scoped (ScopedThread_ctor sys uninit start arg) (ScopedThread_dtor sys) (return_prog ()) w =
     (case sys (pthread_create NULL start arg) (os w) of
        None \<Rightarrow> (None, w\<lparr>trace := trace w @ [pthread_create NULL start arg]\<rparr>)
      | Some (r', s') \<Rightarrow>
          (case sys (pthread_join (case thread_out r' of None \<Rightarrow> uninit | Some t' \<Rightarrow> t')) s' of
             None \<Rightarrow>
               (None,
                \<lparr>os = s',
                 trace = trace w @
                   [pthread_create NULL start arg,
                    pthread_join (case thread_out r' of None \<Rightarrow> uninit | Some t' \<Rightarrow> t')]\<rparr>)
           | Some (r'', s'') \<Rightarrow>
               (Some (),
                \<lparr>os = s'',
                 trace = trace w @
                   [pthread_create NULL start arg,
                    pthread_join (case thread_out r' of None \<Rightarrow> uninit | Some t' \<Rightarrow> t')]\<rparr>)))"
    by (simp add: scoped_run ScopedThread_ctor_def ScopedThread_dtor_def run_call_return
        return_prog_def split: option.split)
  have c10: "ScopedThread_apply sys m Joined = None"
    by (simp add: ScopedThread_apply_def split: ScopedThread_member.split)
  have c11: "(ScopedThread_apply sys m (Running this) \<noteq> None) = (m = ScopedThread_destroy)"
    by (cases m) (simp_all add: ScopedThread_apply_def)
  have c12: "(ScopedThread_apply sys m (Unbuilt uninit) \<noteq> None) =
     (\<exists>start' arg'. m = ScopedThread_construct start' arg')"
    by (cases m) (simp_all add: ScopedThread_apply_def)
  have c13: "map_option (\<lambda>p. p w)
       (ScopedThread_apply sys (ScopedThread_construct start arg) (Unbuilt uninit)) =
     Some (case sys (pthread_create NULL start arg) (os w) of
             None \<Rightarrow> (None, w\<lparr>trace := trace w @ [pthread_create NULL start arg]\<rparr>)
           | Some (r', s') \<Rightarrow>
               (Some (Running
                  \<lparr>ScopedThread_thread = (case thread_out r' of None \<Rightarrow> uninit | Some t' \<Rightarrow> t')\<rparr>),
                \<lparr>os = s', trace = trace w @ [pthread_create NULL start arg]\<rparr>))"
    by (simp add: ScopedThread_apply_def ScopedThread_ctor_def bind_call bind_prog_def
        return_prog_def call_def split: option.split)
  have c14: "map_option (\<lambda>p. p w') (ScopedThread_apply sys ScopedThread_destroy (Running this)) =
     Some (case sys (pthread_join (ScopedThread_thread this)) (os w') of
             None \<Rightarrow>
               (None, w'\<lparr>trace := trace w' @ [pthread_join (ScopedThread_thread this)]\<rparr>)
           | Some (r', s') \<Rightarrow>
               (Some Joined,
                \<lparr>os = s', trace = trace w' @ [pthread_join (ScopedThread_thread this)]\<rparr>))"
    by (simp add: ScopedThread_apply_def ScopedThread_dtor_def bind_prog_def
        return_prog_def call_def split: option.split)
  show ?thesis
    by (intro conjI c1 c2 c3 c4 c5 c6 c7 c8 c9 c10 c11 c12 c13 c14)
qed

theorem ScopedThread_life_run:
  "sys_spawn 42 (pthread_create NULL 1 2) (os world0) =
     Some (ok_result\<lparr>thread_out := Some 42\<rparr>, ()) \<and>
   thread_out (ok_result\<lparr>thread_out := Some 42\<rparr>) = Some 42 \<and>
   emitted (scoped (ScopedThread_ctor (sys_spawn 42) 99 1 2) (ScopedThread_dtor (sys_spawn 42))
              (return_prog ())) world0 =
     [pthread_create NULL 1 2, pthread_join 42] \<and>
   agree_on (\<lambda>_. ()) sys_ok (sys_status 3) \<and>
   ScopedThread_dtor (sys_status 3) \<lparr>ScopedThread_thread = 42\<rparr> world0 =
     ScopedThread_dtor sys_ok \<lparr>ScopedThread_thread = 42\<rparr> world0 \<and>
   scoped (ScopedThread_ctor (sys_spawn 42) 99 1 2) (ScopedThread_dtor (sys_spawn 42))
       (return_prog ()) world0 =
     (Some (), \<lparr>os = (), trace = [pthread_create NULL 1 2, pthread_join 42]\<rparr>) \<and>
   ScopedThread_apply (sys_spawn 42) ScopedThread_destroy Joined = None \<and>
   ScopedThread_apply (sys_spawn 42) (ScopedThread_construct 1 2)
       (Running \<lparr>ScopedThread_thread = 42\<rparr>) = None"
  using agree_on_unit_const_status [of 3]
    ScopedThread_creates_once_joins_once
      [of "sys_spawn 42" 99 1 2 world0 "\<lparr>ScopedThread_thread = 42\<rparr>" world0 "sys_spawn 42"
          "ok_result\<lparr>thread_out := Some 42\<rparr>" "()" 42 ScopedThread_destroy]
    ScopedThread_creates_once_joins_once
      [of "sys_spawn 42" 99 1 2 world0 "\<lparr>ScopedThread_thread = 42\<rparr>" world0 "sys_spawn 42"
          "ok_result\<lparr>thread_out := Some 42\<rparr>" "()" 42 "ScopedThread_construct 1 2"]
    ScopedThread_creates_once_joins_once
      [of "sys_status 3" 99 1 2 world0 "\<lparr>ScopedThread_thread = 42\<rparr>" world0 sys_ok]
    ScopedThread_creates_once_joins_once
      [of sys_ok 99 1 2 world0 "\<lparr>ScopedThread_thread = 42\<rparr>" world0 "sys_status 3"]
  by (simp add: sys_spawn_def world0_def ok_result_def)

text \<open>
  C10. The destructor of \<open>ScopedThread\<close> makes the join call for every guard in every state:
  it applies the native join to the outside state, returns exactly when the join returns and
  leaves the outside state the join leaves. The guard holds a handle and nothing else, and
  what the constructor yields does not depend on the status of the creation call. So the life
  of a guard is the creation call followed by the join of the handle the guard then holds,
  whatever the creation call returned. In particular, when the creation call fails, the
  constructor still yields a guard and the destructor joins its handle, which is the
  uninitialised content of the member when the call stored nothing.
\<close>

theorem ScopedThread_joins_after_failed_create:
  "emitted (ScopedThread_dtor sys this) w' = [pthread_join (ScopedThread_thread this)] \<and>
   (agree_on thread_out sys sys' \<longrightarrow>
      ScopedThread_ctor sys uninit start arg w = ScopedThread_ctor sys' uninit start arg w) \<and>
   (sys (pthread_create NULL start arg) (os w) = Some (r, s) \<and> status r \<noteq> 0 \<and>
    thread_out r = None \<longrightarrow>
      fst (ScopedThread_ctor sys uninit start arg w) = Some \<lparr>ScopedThread_thread = uninit\<rparr> \<and>
      emitted (scoped (ScopedThread_ctor sys uninit start arg) (ScopedThread_dtor sys)
                 (return_prog ())) w =
        [pthread_create NULL start arg, pthread_join uninit]) \<and>
   ScopedThread_dtor sys this w' =
     (case sys (pthread_join (ScopedThread_thread this)) (os w') of
        None \<Rightarrow> (None, w'\<lparr>trace := trace w' @ [pthread_join (ScopedThread_thread this)]\<rparr>)
      | Some (r', s') \<Rightarrow>
          (Some (), \<lparr>os = s', trace = trace w' @ [pthread_join (ScopedThread_thread this)]\<rparr>)) \<and>
   ScopedThread_ctor sys uninit start arg w =
     (case sys (pthread_create NULL start arg) (os w) of
        None \<Rightarrow> (None, w\<lparr>trace := trace w @ [pthread_create NULL start arg]\<rparr>)
      | Some (r', s') \<Rightarrow>
          (Some \<lparr>ScopedThread_thread = (case thread_out r' of None \<Rightarrow> uninit | Some t' \<Rightarrow> t')\<rparr>,
           \<lparr>os = s', trace = trace w @ [pthread_create NULL start arg]\<rparr>)) \<and>
   scoped (ScopedThread_ctor sys uninit start arg) (ScopedThread_dtor sys) (return_prog ()) w =
     (case sys (pthread_create NULL start arg) (os w) of
        None \<Rightarrow> (None, w\<lparr>trace := trace w @ [pthread_create NULL start arg]\<rparr>)
      | Some (r', s') \<Rightarrow>
          (case sys (pthread_join (case thread_out r' of None \<Rightarrow> uninit | Some t' \<Rightarrow> t')) s' of
             None \<Rightarrow>
               (None,
                \<lparr>os = s',
                 trace = trace w @
                   [pthread_create NULL start arg,
                    pthread_join (case thread_out r' of None \<Rightarrow> uninit | Some t' \<Rightarrow> t')]\<rparr>)
           | Some (r'', s'') \<Rightarrow>
               (Some (),
                \<lparr>os = s'',
                 trace = trace w @
                   [pthread_create NULL start arg,
                    pthread_join (case thread_out r' of None \<Rightarrow> uninit | Some t' \<Rightarrow> t')]\<rparr>))) \<and>
   (sys (pthread_create NULL start arg) (os w) = Some (r, s) \<and> status r \<noteq> 0 \<longrightarrow>
      scoped (ScopedThread_ctor sys uninit start arg) (ScopedThread_dtor sys) (return_prog ()) w =
        (case sys (pthread_join (case thread_out r of None \<Rightarrow> uninit | Some t' \<Rightarrow> t')) s of
           None \<Rightarrow>
             (None,
              \<lparr>os = s,
               trace = trace w @
                 [pthread_create NULL start arg,
                  pthread_join (case thread_out r of None \<Rightarrow> uninit | Some t' \<Rightarrow> t')]\<rparr>)
         | Some (r'', s'') \<Rightarrow>
             (Some (),
              \<lparr>os = s'',
               trace = trace w @
                 [pthread_create NULL start arg,
                  pthread_join (case thread_out r of None \<Rightarrow> uninit | Some t' \<Rightarrow> t')]\<rparr>)))"
proof -
  have d: "emitted (ScopedThread_dtor sys this) w' = [pthread_join (ScopedThread_thread this)]"
    unfolding ScopedThread_dtor_def by (rule emitted_call_return)
  have c: "agree_on thread_out sys sys' \<longrightarrow>
      ScopedThread_ctor sys uninit start arg w = ScopedThread_ctor sys' uninit start arg w"
  proof
    assume a: "agree_on thread_out sys sys'"
    show "ScopedThread_ctor sys uninit start arg w = ScopedThread_ctor sys' uninit start arg w"
      unfolding ScopedThread_ctor_def by (rule bind_call_agree [OF a]) simp
  qed
  have f: "sys (pthread_create NULL start arg) (os w) = Some (r, s) \<and> status r \<noteq> 0 \<and>
    thread_out r = None \<longrightarrow>
      fst (ScopedThread_ctor sys uninit start arg w) = Some \<lparr>ScopedThread_thread = uninit\<rparr> \<and>
      emitted (scoped (ScopedThread_ctor sys uninit start arg) (ScopedThread_dtor sys)
                 (return_prog ())) w =
        [pthread_create NULL start arg, pthread_join uninit]"
    by (simp add: scoped_run ScopedThread_ctor_def ScopedThread_dtor_def emitted_def bind_call
        return_prog_def split: option.split)
  have dr: "ScopedThread_dtor sys this w' =
     (case sys (pthread_join (ScopedThread_thread this)) (os w') of
        None \<Rightarrow> (None, w'\<lparr>trace := trace w' @ [pthread_join (ScopedThread_thread this)]\<rparr>)
      | Some (r', s') \<Rightarrow>
          (Some (), \<lparr>os = s', trace = trace w' @ [pthread_join (ScopedThread_thread this)]\<rparr>))"
    by (simp add: ScopedThread_dtor_def run_call_return split: option.split)
  have cr: "ScopedThread_ctor sys uninit start arg w =
     (case sys (pthread_create NULL start arg) (os w) of
        None \<Rightarrow> (None, w\<lparr>trace := trace w @ [pthread_create NULL start arg]\<rparr>)
      | Some (r', s') \<Rightarrow>
          (Some \<lparr>ScopedThread_thread = (case thread_out r' of None \<Rightarrow> uninit | Some t' \<Rightarrow> t')\<rparr>,
           \<lparr>os = s', trace = trace w @ [pthread_create NULL start arg]\<rparr>))"
    by (simp add: ScopedThread_ctor_def run_call_return split: option.split)
  have lr: "scoped (ScopedThread_ctor sys uninit start arg) (ScopedThread_dtor sys) (return_prog ()) w =
     (case sys (pthread_create NULL start arg) (os w) of
        None \<Rightarrow> (None, w\<lparr>trace := trace w @ [pthread_create NULL start arg]\<rparr>)
      | Some (r', s') \<Rightarrow>
          (case sys (pthread_join (case thread_out r' of None \<Rightarrow> uninit | Some t' \<Rightarrow> t')) s' of
             None \<Rightarrow>
               (None,
                \<lparr>os = s',
                 trace = trace w @
                   [pthread_create NULL start arg,
                    pthread_join (case thread_out r' of None \<Rightarrow> uninit | Some t' \<Rightarrow> t')]\<rparr>)
           | Some (r'', s'') \<Rightarrow>
               (Some (),
                \<lparr>os = s'',
                 trace = trace w @
                   [pthread_create NULL start arg,
                    pthread_join (case thread_out r' of None \<Rightarrow> uninit | Some t' \<Rightarrow> t')]\<rparr>)))"
    by (simp add: scoped_run ScopedThread_ctor_def ScopedThread_dtor_def run_call_return
        return_prog_def split: option.split)
  have fr: "(sys (pthread_create NULL start arg) (os w) = Some (r, s) \<and> status r \<noteq> 0 \<longrightarrow>
      scoped (ScopedThread_ctor sys uninit start arg) (ScopedThread_dtor sys) (return_prog ()) w =
        (case sys (pthread_join (case thread_out r of None \<Rightarrow> uninit | Some t' \<Rightarrow> t')) s of
           None \<Rightarrow>
             (None,
              \<lparr>os = s,
               trace = trace w @
                 [pthread_create NULL start arg,
                  pthread_join (case thread_out r of None \<Rightarrow> uninit | Some t' \<Rightarrow> t')]\<rparr>)
         | Some (r'', s'') \<Rightarrow>
             (Some (),
              \<lparr>os = s'',
               trace = trace w @
                 [pthread_create NULL start arg,
                  pthread_join (case thread_out r of None \<Rightarrow> uninit | Some t' \<Rightarrow> t')]\<rparr>)))"
    by (simp add: lr split: option.split)
  show ?thesis
    by (intro conjI d c f dr cr lr fr)
qed

theorem ScopedThread_failed_create_run:
  "sys_status 11 (pthread_create NULL 1 2) (os world0) = Some (ok_result\<lparr>status := 11\<rparr>, ()) \<and>
   status (ok_result\<lparr>status := 11\<rparr>) \<noteq> 0 \<and>
   thread_out (ok_result\<lparr>status := 11\<rparr>) = None \<and>
   fst (ScopedThread_ctor (sys_status 11) 99 1 2 world0) = Some \<lparr>ScopedThread_thread = 99\<rparr> \<and>
   emitted (scoped (ScopedThread_ctor (sys_status 11) 99 1 2) (ScopedThread_dtor (sys_status 11))
              (return_prog ())) world0 =
     [pthread_create NULL 1 2, pthread_join 99] \<and>
   scoped (ScopedThread_ctor (sys_status 11) 99 1 2) (ScopedThread_dtor (sys_status 11))
       (return_prog ()) world0 =
     (Some (), \<lparr>os = (), trace = [pthread_create NULL 1 2, pthread_join 99]\<rparr>)"
  using ScopedThread_joins_after_failed_create
      [of "sys_status 11" "\<lparr>ScopedThread_thread = 99\<rparr>" world0 sys_ok 99 1 2 world0
          "ok_result\<lparr>status := 11\<rparr>" "()"]
  by (simp add: sys_status_def world0_def ok_result_def)

section \<open>The flavour of the condition variable\<close>

text \<open>
  C5. Which condition variable is built and which timed wait is called depends on the value
  of the build macro alone, and both follow the same value. With the macro set, in every
  state, for every native interface, mutex, object and time point, the constructor makes the
  single call \<open>pthread_cond_init\<close> with no attribute and \<open>WaitUntil\<close> makes the single call
  \<open>pthread_cond_timedwait_monotonic_np\<close>. With the macro unset the constructor makes, in this
  order and as far as the calls return, the calls that initialise the attribute, set its
  clock to \<open>CLOCK_MONOTONIC\<close>, initialise the condition variable with the attribute and
  destroy the attribute, and \<open>WaitUntil\<close> makes the single call \<open>pthread_cond_timedwait\<close>.
\<close>

theorem ConditionVariable_flavour_fixed_by_build:
  "emitted (ConditionVariable_ctor True sys this mutex) w = [pthread_cond_init this NULL] \<and>
   emitted (WaitUntil True ToTimespec sys cv tp) w' =
     [pthread_cond_timedwait_monotonic_np (CV_cond cv) (Mutex_mutex (CV_mutex cv))
        (ToTimespec tp)] \<and>
   emitted (ConditionVariable_ctor False sys this mutex) w \<in>
     {[pthread_condattr_init Local_attr],
      [pthread_condattr_init Local_attr,
       pthread_condattr_setclock Local_attr CLOCK_MONOTONIC],
      [pthread_condattr_init Local_attr,
       pthread_condattr_setclock Local_attr CLOCK_MONOTONIC,
       pthread_cond_init this (Some Local_attr)],
      [pthread_condattr_init Local_attr,
       pthread_condattr_setclock Local_attr CLOCK_MONOTONIC,
       pthread_cond_init this (Some Local_attr),
       pthread_condattr_destroy Local_attr]} \<and>
   ((\<forall>c s. sys c s \<noteq> None) \<longrightarrow>
      emitted (ConditionVariable_ctor False sys this mutex) w =
        [pthread_condattr_init Local_attr,
         pthread_condattr_setclock Local_attr CLOCK_MONOTONIC,
         pthread_cond_init this (Some Local_attr),
         pthread_condattr_destroy Local_attr]) \<and>
   emitted (WaitUntil False ToTimespec sys cv tp) w' =
     [pthread_cond_timedwait (CV_cond cv) (Mutex_mutex (CV_mutex cv)) (ToTimespec tp)]"
proof -
  have c1: "emitted (ConditionVariable_ctor True sys this mutex) w =
      [pthread_cond_init this NULL]"
    by (simp add: ConditionVariable_ctor_def emitted_call_return)
  have c2: "emitted (WaitUntil True ToTimespec sys cv tp) w' =
     [pthread_cond_timedwait_monotonic_np (CV_cond cv) (Mutex_mutex (CV_mutex cv))
        (ToTimespec tp)]"
    by (simp add: WaitUntil_def GetMutex_def emitted_call_return)
  have c3: "emitted (ConditionVariable_ctor False sys this mutex) w \<in>
     {[pthread_condattr_init Local_attr],
      [pthread_condattr_init Local_attr,
       pthread_condattr_setclock Local_attr CLOCK_MONOTONIC],
      [pthread_condattr_init Local_attr,
       pthread_condattr_setclock Local_attr CLOCK_MONOTONIC,
       pthread_cond_init this (Some Local_attr)],
      [pthread_condattr_init Local_attr,
       pthread_condattr_setclock Local_attr CLOCK_MONOTONIC,
       pthread_cond_init this (Some Local_attr),
       pthread_condattr_destroy Local_attr]}"
    by (simp add: ConditionVariable_ctor_def emitted_def bind_call return_prog_def
        split: option.split)
  have c4: "emitted (ConditionVariable_ctor False sys this mutex) w =
        [pthread_condattr_init Local_attr,
         pthread_condattr_setclock Local_attr CLOCK_MONOTONIC,
         pthread_cond_init this (Some Local_attr),
         pthread_condattr_destroy Local_attr]" if ret: "\<forall>c s. sys c s \<noteq> None"
  proof -
    have returns: "(sys c s = None) = False" for c s
      using ret by simp
    show ?thesis
      by (simp add: ConditionVariable_ctor_def emitted_def bind_call return_prog_def returns
          split: option.split)
  qed
  have c5: "emitted (WaitUntil False ToTimespec sys cv tp) w' =
     [pthread_cond_timedwait (CV_cond cv) (Mutex_mutex (CV_mutex cv)) (ToTimespec tp)]"
    by (simp add: WaitUntil_def GetMutex_def emitted_call_return)
  show ?thesis
    using c1 c2 c3 c4 c5 by blast
qed

theorem ConditionVariable_monotonic_run:
  "(\<forall>c s. sys_ok c s \<noteq> None) \<and>
   emitted (ConditionVariable_ctor False sys_ok 4 \<lparr>Mutex_mutex = 3\<rparr>) world0 =
     [pthread_condattr_init Local_attr,
      pthread_condattr_setclock Local_attr CLOCK_MONOTONIC,
      pthread_cond_init 4 (Some Local_attr),
      pthread_condattr_destroy Local_attr] \<and>
   emitted (WaitUntil False (\<lambda>n. \<lparr>tv_sec = n, tv_nsec = 0\<rparr>) sys_ok
              \<lparr>CV_mutex = \<lparr>Mutex_mutex = 3\<rparr>, CV_cond = 4\<rparr> 5) world0 =
     [pthread_cond_timedwait 4 3 \<lparr>tv_sec = 5, tv_nsec = 0\<rparr>]"
proof -
  have n: "\<forall>c s. sys_ok c s \<noteq> None"
    by (simp add: sys_ok_def)
  show ?thesis
    using n ConditionVariable_flavour_fixed_by_build
      [of sys_ok 4 "\<lparr>Mutex_mutex = 3\<rparr>" world0 "\<lambda>n. \<lparr>tv_sec = n, tv_nsec = 0\<rparr>"
          "\<lparr>CV_mutex = \<lparr>Mutex_mutex = 3\<rparr>, CV_cond = 4\<rparr>" 5 world0]
    by simp
qed

end
